theory Spec2Isabelle
  imports Main "HOL-Library.Sublist"
begin

section \<open>The ingestion queue processor (worker/src/queues/ingestionQueue.ts)\<close>

text \<open>
  The processor is one async function with a single try/catch around it. It reads the
  process configuration, obtains the cached storage client, lists the fragment files of
  the job, downloads and validates them concurrently, hands the flattened events to the
  merge service and records telemetry.

  Everything outside the file (the storage client's transport, \<open>JSON.parse\<close>, the two
  zod schemas, the merge service, the queue, the clock) is a field of the record
  \<open>collaborators\<close>: the theorems hold for every behaviour of these. An awaited
  promise is \<open>Pending\<close>, \<open>Fulfilled\<close> with a value or \<open>Rejected\<close> with an error; a
  synchronous call that may throw returns \<open>error + 'a\<close>. Loggers and metric
  recorders append to the list of effects of the attempt and do not throw; building the
  merge service and reading the singletons it is built from leave no effect.
\<close>

subsection \<open>Values\<close>

datatype error = Error (message: string)

datatype 'a promise = Pending | Fulfilled 'a | Rejected error

text \<open>The result of zod's \<open>safeParse\<close>: the data, or the message of the schema error.\<close>

datatype 'a SafeParseReturn = Success 'a | Failure string

datatype schema = BatchShape | SingleShape

record S3StorageService =
  bucketName :: string
  accessKeyId :: "string option"
  secretAccessKey :: "string option"
  endpoint :: "string option"
  region :: "string option"
  forcePathStyle :: bool

text \<open>The variables of \<open>env\<close> the file reads; an unset variable is \<open>None\<close>.\<close>

record env =
  LANGFUSE_S3_EVENT_UPLOAD_ENABLED :: "string option"
  LANGFUSE_S3_EVENT_UPLOAD_BUCKET :: "string option"
  LANGFUSE_S3_EVENT_UPLOAD_PREFIX :: string
  LANGFUSE_S3_EVENT_UPLOAD_ACCESS_KEY_ID :: "string option"
  LANGFUSE_S3_EVENT_UPLOAD_SECRET_ACCESS_KEY :: "string option"
  LANGFUSE_S3_EVENT_UPLOAD_ENDPOINT :: "string option"
  LANGFUSE_S3_EVENT_UPLOAD_REGION :: "string option"
  LANGFUSE_S3_EVENT_UPLOAD_FORCE_PATH_STYLE :: "string option"

text \<open>
  The fields of the queue job the processor reads: \<open>payload.authCheck.scope.projectId\<close>,
  \<open>payload.data.type\<close>, \<open>payload.data.eventBodyId\<close> and \<open>timestamp\<close>.
\<close>

record job =
  projectId :: string
  data_type :: string
  eventBodyId :: string
  timestamp :: int

text \<open>
  The collaborators. \<open>completionTime W i\<close> is the instant at which the download and
  validation of the \<open>i\<close>-th listed fragment settles; \<open>IngestionQueue_count\<close> is
  \<open>None\<close> when \<open>IngestionQueue.getInstance()\<close> is null; \<open>Date_now W k\<close> is
  the \<open>k\<close>-th reading of the clock in the attempt.
\<close>

record ('j, 'ev, 'en) collaborators =
  listFiles :: "S3StorageService \<Rightarrow> string \<Rightarrow> string list promise"
  download :: "S3StorageService \<Rightarrow> string \<Rightarrow> string promise"
  completionTime :: "nat \<Rightarrow> nat"
  JSON_parse :: "string \<Rightarrow> error + 'j"
  ingestionBatchEvent_safeParse :: "'j \<Rightarrow> 'ev list SafeParseReturn"
  ingestionEvent_safeParse :: "'j \<Rightarrow> 'ev SafeParseReturn"
  redis :: bool
  prisma :: bool
  getClickhouseEntityType :: "'ev \<Rightarrow> error + 'en"
  mergeAndWrite :: "'en \<Rightarrow> string \<Rightarrow> string \<Rightarrow> 'ev list \<Rightarrow> unit promise"
  IngestionQueue_count :: "nat promise option"
  Date_now :: "nat \<Rightarrow> int"

text \<open>What an attempt does to the outside, in the order it does it.\<close>

datatype ('ev, 'en) effect =
    NewS3StorageService S3StorageService
  | LoggerInfo string string string string
  | ListFiles string
  | Download string
  | LoggerWarn string
  | MergeAndWrite 'en string string "'ev list"
  | RecordIncrement string
  | RecordHistogram string int string
  | LoggerDebug string
  | RecordGauge string nat string
  | LoggerError string error
  | TraceException error

subsection \<open>JavaScript built-ins the file uses\<close>

text \<open>A value of type \<open>string | undefined\<close> is truthy when it is a non-empty string.\<close>

definition truthy :: "string option \<Rightarrow> bool" where
  "truthy v = (case v of None \<Rightarrow> False | Some s \<Rightarrow> s \<noteq> [])"

text \<open>\<open>s.split(c)\<close> for a one-character separator: never the empty array.\<close>

fun split :: "char \<Rightarrow> string \<Rightarrow> string list" where
  "split c [] = [[]]"
| "split c (x # xs) =
     (if x = c then [] # split c xs
      else (case split c xs of [] \<Rightarrow> [[x]] | y # ys \<Rightarrow> (x # y) # ys))"

text \<open>\<open>a.shift()\<close>: the first element, \<open>undefined\<close> on the empty array.\<close>

definition shift :: "'a list \<Rightarrow> 'a option" where
  "shift xs = (case xs of [] \<Rightarrow> None | x # _ \<Rightarrow> Some x)"

text \<open>A number in a template literal: its decimal digits.\<close>

fun string_of_nat :: "nat \<Rightarrow> string" where
  "string_of_nat n =
     (if n < 10 then [char_of (48 + n)]
      else string_of_nat (n div 10) @ [char_of (48 + n mod 10)])"

declare string_of_nat.simps [simp del]

text \<open>
  \<open>p.then(onFulfilled)\<close> and \<open>p.catch(onRejected)\<close> on a promise together with the
  effects of the callbacks that have run. The handler of \<open>catch\<close> is optional: when
  it is not a function, the rejection passes through to the promise \<open>catch\<close> returns.
\<close>

definition promise_then ::
  "('a \<Rightarrow> 'f list \<times> 'b promise) \<Rightarrow> 'f list \<times> 'a promise \<Rightarrow> 'f list \<times> 'b promise" where
  "promise_then onFulfilled p =
     (case p of
        (t, Fulfilled v) \<Rightarrow> (case onFulfilled v of (t', r) \<Rightarrow> (t @ t', r))
      | (t, Rejected e) \<Rightarrow> (t, Rejected e)
      | (t, Pending) \<Rightarrow> (t, Pending))"

definition promise_catch ::
  "(error \<Rightarrow> 'f list \<times> 'a promise) option \<Rightarrow> 'f list \<times> 'a promise \<Rightarrow> 'f list \<times> 'a promise" where
  "promise_catch onRejected p =
     (case onRejected of
        None \<Rightarrow> p
      | Some h \<Rightarrow>
          (case p of
             (t, Rejected e) \<Rightarrow> (case h e of (t', r) \<Rightarrow> (t @ t', r))
           | (t, Fulfilled v) \<Rightarrow> (t, Fulfilled v)
           | (t, Pending) \<Rightarrow> (t, Pending)))"

text \<open>
  \<open>Promise.all\<close>: the input promises settle one after the other, in the order of their
  completion times. A fulfilled one stores its value at its own index, the first rejected
  one rejects the result, a pending one never completes; the result is fulfilled with the
  array of values once every slot is filled.
\<close>

fun settleInOrder :: "nat list \<Rightarrow> 'a promise list \<Rightarrow> 'a option list \<Rightarrow> 'a list promise" where
  "settleInOrder [] ps vals =
     (case those vals of Some vs \<Rightarrow> Fulfilled vs | None \<Rightarrow> Pending)"
| "settleInOrder (i # order) ps vals =
     (case ps ! i of
        Rejected e \<Rightarrow> Rejected e
      | Fulfilled v \<Rightarrow> settleInOrder order ps (vals[i := Some v])
      | Pending \<Rightarrow> settleInOrder order ps vals)"

definition Promise_all :: "(nat \<Rightarrow> nat) \<Rightarrow> 'a promise list \<Rightarrow> 'a list promise" where
  "Promise_all time ps =
     settleInOrder (sort_key time [0..<length ps]) ps (replicate (length ps) None)"

subsection \<open>The cached storage client (lines 25-39)\<close>

text \<open>
  The module-level variable \<open>s3StorageServiceClient\<close> is the state: \<open>None\<close> until
  the first call. The accessor returns the client, the new value of the variable and the
  clients it constructed (one or none).
\<close>

definition getS3StorageServiceClient ::
  "env \<Rightarrow> string \<Rightarrow> S3StorageService option
     \<Rightarrow> S3StorageService \<times> S3StorageService option \<times> S3StorageService list" where
  "getS3StorageServiceClient E bucket s3StorageServiceClient =
     (case s3StorageServiceClient of
        None \<Rightarrow>
          (let client = \<lparr> bucketName = bucket,
                 accessKeyId = LANGFUSE_S3_EVENT_UPLOAD_ACCESS_KEY_ID E,
                 secretAccessKey = LANGFUSE_S3_EVENT_UPLOAD_SECRET_ACCESS_KEY E,
                 endpoint = LANGFUSE_S3_EVENT_UPLOAD_ENDPOINT E,
                 region = LANGFUSE_S3_EVENT_UPLOAD_REGION E,
                 forcePathStyle = (LANGFUSE_S3_EVENT_UPLOAD_FORCE_PATH_STYLE E = Some ''true'') \<rparr>
           in (client, Some client, [client]))
      | Some client \<Rightarrow> (client, Some client, []))"

text \<open>
  A run of calls of the accessor in one process, threading the variable: the clients
  returned, the final value of the variable and the clients constructed.
\<close>

fun getS3StorageServiceClient_calls ::
  "env \<Rightarrow> string list \<Rightarrow> S3StorageService option
     \<Rightarrow> S3StorageService list \<times> S3StorageService option \<times> S3StorageService list" where
  "getS3StorageServiceClient_calls E [] s = ([], s, [])"
| "getS3StorageServiceClient_calls E (b # bs) s =
     (case getS3StorageServiceClient E b s of
        (client, s', made) \<Rightarrow>
          (case getS3StorageServiceClient_calls E bs s' of
             (clients, s'', made') \<Rightarrow> (client # clients, s'', made @ made')))"

subsection \<open>Download and validation of one fragment (lines 76-93)\<close>

text \<open>
  The two \<open>safeParse\<close> calls on the parsed content of one file, with the schemas tried
  in the order they are tried.
\<close>

definition validateFragment ::
  "('j, 'ev, 'en) collaborators \<Rightarrow> 'j \<Rightarrow> schema list \<times> (error + 'ev list)" where
  "validateFragment W parsedFile =
     (case ingestionBatchEvent_safeParse W parsedFile of
        Success d \<Rightarrow> ([BatchShape], Inr d)
      | Failure _ \<Rightarrow>
          (case ingestionEvent_safeParse W parsedFile of
             Success d \<Rightarrow> ([BatchShape, SingleShape], Inr [d])
           | Failure m \<Rightarrow>
               ([BatchShape, SingleShape],
                Inl (Error (''Failed to parse event from S3: '' @ m)))))"

text \<open>The async callback mapped over the listed keys.\<close>

definition fragmentEvents ::
  "('j, 'ev, 'en) collaborators \<Rightarrow> S3StorageService \<Rightarrow> string \<Rightarrow> 'ev list promise" where
  "fragmentEvents W s3Client key =
     (case download W s3Client key of
        Pending \<Rightarrow> Pending
      | Rejected e \<Rightarrow> Rejected e
      | Fulfilled file \<Rightarrow>
          (case JSON_parse W file of
             Inl e \<Rightarrow> Rejected e
           | Inr parsedFile \<Rightarrow>
               (case snd (validateFragment W parsedFile) of
                  Inl e \<Rightarrow> Rejected e
                | Inr evs \<Rightarrow> Fulfilled evs)))"

subsection \<open>Listing and assembly (lines 70-95)\<close>

text \<open>
  Every download is started while the keys are mapped, in listing order, before any of
  them settles; \<open>flat()\<close> is \<open>concat\<close>.
\<close>

definition assembleEvents ::
  "('j, 'ev, 'en) collaborators \<Rightarrow> S3StorageService \<Rightarrow> string
     \<Rightarrow> ('ev, 'en) effect list \<times> 'ev list promise" where
  "assembleEvents W s3Client folder =
     (case listFiles W s3Client folder of
        Pending \<Rightarrow> ([ListFiles folder], Pending)
      | Rejected e \<Rightarrow> ([ListFiles folder], Rejected e)
      | Fulfilled eventFiles \<Rightarrow>
          (ListFiles folder # map Download eventFiles,
           map_promise concat
             (Promise_all (completionTime W) (map (fragmentEvents W s3Client) eventFiles))))"

subsection \<open>Telemetry (lines 119-140)\<close>

text \<open>The awaited chain on the queue's \<open>count()\<close>; \<open>?.\<close> skips it when there is no queue.\<close>

definition queueLength ::
  "('j, 'ev, 'en) collaborators \<Rightarrow> ('ev, 'en) effect list \<times> nat option promise" where
  "queueLength W =
     (case IngestionQueue_count W of
        None \<Rightarrow> ([], Fulfilled None)
      | Some counted \<Rightarrow>
          promise_catch None
            (promise_then
               (\<lambda>count.
                  ([LoggerDebug (''Ingestion queue length: '' @ string_of_nat count),
                    RecordGauge ''langfuse.queue.ingestion.length'' count ''records''],
                   Fulfilled (Some count)))
               ([], counted)))"

definition recordTelemetry ::
  "('j, 'ev, 'en) collaborators \<Rightarrow> job \<Rightarrow> int \<Rightarrow> ('ev, 'en) effect list \<times> unit promise" where
  "recordTelemetry W j startTime =
     (let waitTime = Date_now W 1 - timestamp j;
          t = [RecordIncrement ''langfuse.queue.ingestion.request'',
               RecordHistogram ''langfuse.queue.ingestion.wait_time'' waitTime ''milliseconds'']
      in case queueLength W of
           (t', Pending) \<Rightarrow> (t @ t', Pending)
         | (t', Rejected e) \<Rightarrow> (t @ t', Rejected e)
         | (t', Fulfilled _) \<Rightarrow>
             (t @ t' @ [RecordHistogram ''langfuse.queue.ingestion.processing_time''
                          (Date_now W 2 - startTime) ''milliseconds''],
              Fulfilled ()))"

subsection \<open>Merge (lines 97-117)\<close>

text \<open>
  What follows the assembly: the empty batch returns early; otherwise the service is
  built, the entity type is read off \<open>events[0]\<close> and \<open>mergeAndWrite\<close> is awaited.
\<close>

definition processEvents ::
  "('j, 'ev, 'en) collaborators \<Rightarrow> job \<Rightarrow> int \<Rightarrow> 'ev list
     \<Rightarrow> ('ev, 'en) effect list \<times> unit promise" where
  "processEvents W j startTime events =
     (case events of
        [] \<Rightarrow>
          ([LoggerWarn (''No events found for project '' @ projectId j
                         @ '' and event '' @ eventBodyId j)],
           Fulfilled ())
      | event0 # _ \<Rightarrow>
          (if \<not> redis W then ([], Rejected (Error ''Redis not available''))
           else if \<not> prisma W then ([], Rejected (Error ''Prisma not available''))
           else (case getClickhouseEntityType W event0 of
                   Inl e \<Rightarrow> ([], Rejected e)
                 | Inr entityType \<Rightarrow>
                     (case mergeAndWrite W entityType (projectId j) (eventBodyId j) events of
                        Pending \<Rightarrow>
                          ([MergeAndWrite entityType (projectId j) (eventBodyId j) events],
                           Pending)
                      | Rejected e \<Rightarrow>
                          ([MergeAndWrite entityType (projectId j) (eventBodyId j) events],
                           Rejected e)
                      | Fulfilled _ \<Rightarrow>
                          (case recordTelemetry W j startTime of
                             (t, r) \<Rightarrow>
                               (MergeAndWrite entityType (projectId j) (eventBodyId j) events
                                  # t, r))))))"

subsection \<open>The processor (lines 41-149)\<close>

definition storagePrefix :: "env \<Rightarrow> job \<Rightarrow> string \<Rightarrow> string" where
  "storagePrefix E j eventName =
     LANGFUSE_S3_EVENT_UPLOAD_PREFIX E @ projectId j @ ''/'' @ eventName @ ''/''
       @ eventBodyId j @ ''/''"

text \<open>
  The guard of lines 47-54: the bucket name, when the flag is \<open>"true"\<close> and the bucket
  name is truthy.
\<close>

definition configuredBucket :: "env \<Rightarrow> string option" where
  "configuredBucket E =
     (if LANGFUSE_S3_EVENT_UPLOAD_ENABLED E \<noteq> Some ''true''
         \<or> \<not> truthy (LANGFUSE_S3_EVENT_UPLOAD_BUCKET E)
      then None
      else LANGFUSE_S3_EVENT_UPLOAD_BUCKET E)"

text \<open>Lines 59-62: the event name, when \<open>split("-").shift()\<close> is truthy.\<close>

definition eventNameOf :: "job \<Rightarrow> string option" where
  "eventNameOf j =
     (let eventName = shift (split (CHR ''-'') (data_type j))
      in if \<not> truthy eventName then None else eventName)"

text \<open>The body of the \<open>try\<close>.\<close>

definition tryBlock ::
  "env \<Rightarrow> ('j, 'ev, 'en) collaborators \<Rightarrow> job \<Rightarrow> S3StorageService option
     \<Rightarrow> S3StorageService option \<times> ('ev, 'en) effect list \<times> unit promise" where
  "tryBlock E W j cache =
     (let startTime = Date_now W 0 in
      case configuredBucket E of
        None \<Rightarrow>
          (cache, [], Rejected (Error ''S3 event store is not enabled but useS3EventStore is true''))
      | Some bucket \<Rightarrow>
          (case getS3StorageServiceClient E bucket cache of
             (s3Client, cache', made) \<Rightarrow>
               (case eventNameOf j of
                  None \<Rightarrow>
                    (cache', map NewS3StorageService made,
                     Rejected (Error ''Event name not found''))
                | Some eventName \<Rightarrow>
                    (let t1 = map NewS3StorageService made
                                @ [LoggerInfo ''Processing ingestion event''
                                     (projectId j) (data_type j) (eventBodyId j)]
                     in case assembleEvents W s3Client (storagePrefix E j eventName) of
                          (t2, Pending) \<Rightarrow> (cache', t1 @ t2, Pending)
                        | (t2, Rejected e) \<Rightarrow> (cache', t1 @ t2, Rejected e)
                        | (t2, Fulfilled events) \<Rightarrow>
                            (case processEvents W j startTime events of
                               (t3, r) \<Rightarrow> (cache', t1 @ t2 @ t3, r))))))"

text \<open>The \<open>catch\<close>: log with the project id, trace, rethrow the same error.\<close>

definition ingestionQueueProcessor ::
  "env \<Rightarrow> ('j, 'ev, 'en) collaborators \<Rightarrow> job \<Rightarrow> S3StorageService option
     \<Rightarrow> S3StorageService option \<times> ('ev, 'en) effect list \<times> unit promise" where
  "ingestionQueueProcessor E W j cache =
     (case tryBlock E W j cache of
        (cache', t, Rejected e) \<Rightarrow>
          (cache',
           t @ [LoggerError (''Failed job ingestion processing for '' @ projectId j) e,
                TraceException e],
           Rejected e)
      | (cache', t, Fulfilled u) \<Rightarrow> (cache', t, Fulfilled u)
      | (cache', t, Pending) \<Rightarrow> (cache', t, Pending))"

text \<open>The effects and the outcome of an attempt.\<close>

definition effects ::
  "S3StorageService option \<times> ('ev, 'en) effect list \<times> unit promise \<Rightarrow> ('ev, 'en) effect list" where
  "effects r = fst (snd r)"

definition outcome ::
  "S3StorageService option \<times> ('ev, 'en) effect list \<times> unit promise \<Rightarrow> unit promise" where
  "outcome r = snd (snd r)"

fun isMerge :: "('ev, 'en) effect \<Rightarrow> bool" where
  "isMerge (MergeAndWrite _ _ _ _) = True"
| "isMerge _ = False"

fun isStorageAccess :: "('ev, 'en) effect \<Rightarrow> bool" where
  "isStorageAccess (ListFiles _) = True"
| "isStorageAccess (Download _) = True"
| "isStorageAccess _ = False"

fun listedPrefix :: "('ev, 'en) effect \<Rightarrow> string option" where
  "listedPrefix (ListFiles p) = Some p"
| "listedPrefix _ = None"

fun isFailureReport :: "('ev, 'en) effect \<Rightarrow> bool" where
  "isFailureReport (LoggerError _ _) = True"
| "isFailureReport (TraceException _) = True"
| "isFailureReport _ = False"

subsection \<open>A concrete job\<close>

text \<open>
  The scenario of the specification: project \<open>p1\<close>, type \<open>trace-create\<close>, body
  \<open>b1\<close>, two fragments, the first a single event, the second a batch of two. The
  second fragment completes before the first. Parsed JSON, events and entity types are
  strings here.
\<close>

definition exampleEnv :: env where
  "exampleEnv =
     \<lparr> LANGFUSE_S3_EVENT_UPLOAD_ENABLED = Some ''true'',
       LANGFUSE_S3_EVENT_UPLOAD_BUCKET = Some ''events'',
       LANGFUSE_S3_EVENT_UPLOAD_PREFIX = ''events/'',
       LANGFUSE_S3_EVENT_UPLOAD_ACCESS_KEY_ID = None,
       LANGFUSE_S3_EVENT_UPLOAD_SECRET_ACCESS_KEY = None,
       LANGFUSE_S3_EVENT_UPLOAD_ENDPOINT = None,
       LANGFUSE_S3_EVENT_UPLOAD_REGION = None,
       LANGFUSE_S3_EVENT_UPLOAD_FORCE_PATH_STYLE = None \<rparr>"

definition exampleClient :: S3StorageService where
  "exampleClient =
     \<lparr> bucketName = ''events'', accessKeyId = None, secretAccessKey = None,
       endpoint = None, region = None, forcePathStyle = False \<rparr>"

definition exampleJob :: job where
  "exampleJob =
     \<lparr> projectId = ''p1'', data_type = ''trace-create'', eventBodyId = ''b1'',
       timestamp = 100 \<rparr>"

definition exampleWorld :: "(string, string, string) collaborators" where
  "exampleWorld =
     \<lparr> listFiles = (\<lambda>c p. if p = ''events/p1/trace/b1/'' then Fulfilled [''A'', ''B'']
                          else Fulfilled []),
       download = (\<lambda>c k. if k = ''A'' then Fulfilled ''{t1}''
                         else if k = ''B'' then Fulfilled ''[t2,t3]''
                         else Fulfilled ''{unexpected}''),
       completionTime = (\<lambda>i. 10 - i),
       JSON_parse = Inr,
       ingestionBatchEvent_safeParse =
         (\<lambda>p. if p = ''[t2,t3]'' then Success [''t2'', ''t3''] else Failure ''Expected array''),
       ingestionEvent_safeParse =
         (\<lambda>p. if p = ''{t1}'' then Success ''t1'' else Failure ''Required''),
       redis = True,
       prisma = True,
       getClickhouseEntityType = (\<lambda>ev. Inr ''trace''),
       mergeAndWrite = (\<lambda>_ _ _ _. Fulfilled ()),
       IngestionQueue_count = Some (Fulfilled 7),
       Date_now = (\<lambda>k. 150 + 10 * int k) \<rparr>"

text \<open>Variations of the scenario, one for each way an attempt can go.\<close>

definition exampleEnv_disabled :: env where
  "exampleEnv_disabled = exampleEnv\<lparr>LANGFUSE_S3_EVENT_UPLOAD_ENABLED := Some ''false''\<rparr>"

definition exampleJob_noName :: job where
  "exampleJob_noName = exampleJob\<lparr>data_type := ''-create''\<rparr>"

definition exampleWorld_noFragments :: "(string, string, string) collaborators" where
  "exampleWorld_noFragments = exampleWorld\<lparr>listFiles := (\<lambda>c p. Fulfilled [])\<rparr>"

definition exampleWorld_listingFails :: "(string, string, string) collaborators" where
  "exampleWorld_listingFails =
     exampleWorld\<lparr>listFiles := (\<lambda>c p. Rejected (Error ''AccessDenied''))\<rparr>"

definition exampleWorld_badFragment :: "(string, string, string) collaborators" where
  "exampleWorld_badFragment =
     exampleWorld\<lparr>listFiles := (\<lambda>c p. Fulfilled [''events/p1/trace/b1/f1.json''])\<rparr>"

definition exampleWorld_mergeFails :: "(string, string, string) collaborators" where
  "exampleWorld_mergeFails =
     exampleWorld\<lparr>mergeAndWrite := (\<lambda>_ _ _ _. Rejected (Error ''ClickHouse timeout''))\<rparr>"

definition exampleWorld_depthFails :: "(string, string, string) collaborators" where
  "exampleWorld_depthFails =
     exampleWorld\<lparr>IngestionQueue_count := Some (Rejected (Error ''Connection is closed.''))\<rparr>"

section \<open>Promise.all\<close>

lemma those_eq_Some: "those vals = Some vs \<longleftrightarrow> vals = map Some vs"
proof (induction vals arbitrary: vs)
  case Nil
  show ?case by auto
next
  case (Cons a vals)
  show ?case
  proof (cases a)
    case None
    then show ?thesis by auto
  next
    case (Some y)
    with Cons show ?thesis by (cases vs) auto
  qed
qed

lemma those_map_Some: "those (map Some vs) = Some vs"
  by (simp add: those_eq_Some)

text \<open>
  When every promise is fulfilled, any order of completion over the indices fills every
  slot with the value of its own promise.
\<close>

lemma settleInOrder_all_fulfilled:
  assumes "length vals = length vs"
    and "\<forall>j<length vs. j \<notin> set order \<longrightarrow> vals ! j = Some (vs ! j)"
    and "set order \<subseteq> {..<length vs}"
  shows "settleInOrder order (map Fulfilled vs) vals = Fulfilled vs"
  using assms
proof (induction order arbitrary: vals)
  case Nil
  then have "vals = map Some vs"
    by (intro nth_equalityI) auto
  then show ?case by (simp add: those_map_Some)
next
  case (Cons i order)
  from Cons.prems have i: "i < length vs" by auto
  have "settleInOrder order (map Fulfilled vs) (vals[i := Some (vs ! i)]) = Fulfilled vs"
  proof (rule Cons.IH)
    show "length (vals[i := Some (vs ! i)]) = length vs" using Cons.prems by simp
    show "\<forall>j<length vs. j \<notin> set order \<longrightarrow> vals[i := Some (vs ! i)] ! j = Some (vs ! j)"
      using Cons.prems by (auto simp: nth_list_update)
    show "set order \<subseteq> {..<length vs}" using Cons.prems by auto
  qed
  with i show ?case by simp
qed

lemma Promise_all_fulfilled: "Promise_all time (map Fulfilled vs) = Fulfilled vs"
  unfolding Promise_all_def
  by (rule settleInOrder_all_fulfilled) auto

lemma settleInOrder_Fulfilled_D:
  assumes "settleInOrder order ps vals = Fulfilled vs"
    and "length vals = length ps"
    and "\<forall>j<length ps. \<forall>v. vals ! j = Some v \<longrightarrow> ps ! j = Fulfilled v"
  shows "ps = map Fulfilled vs"
  using assms
proof (induction order arbitrary: vals)
  case Nil
  then have v: "vals = map Some vs" by (auto simp: those_eq_Some split: option.splits)
  with Nil show ?case by (intro nth_equalityI) auto
next
  case (Cons i order)
  show ?case
  proof (cases "ps ! i")
    case Pending
    with Cons show ?thesis by simp
  next
    case (Fulfilled v)
    with Cons.prems have "settleInOrder order ps (vals[i := Some v]) = Fulfilled vs" by simp
    moreover have "\<forall>j<length ps. \<forall>w. vals[i := Some v] ! j = Some w \<longrightarrow> ps ! j = Fulfilled w"
    proof (intro allI impI)
      fix j w
      assume j: "j < length ps" and w: "vals[i := Some v] ! j = Some w"
      show "ps ! j = Fulfilled w"
      proof (cases "i = j")
        case True
        with j w Cons.prems(2) Fulfilled show ?thesis by simp
      next
        case False
        with j w Cons.prems(3) show ?thesis by simp
      qed
    qed
    ultimately show ?thesis using Cons.IH Cons.prems(2) by simp
  next
    case (Rejected e)
    with Cons.prems show ?thesis by simp
  qed
qed

lemma Promise_all_Fulfilled_iff: "Promise_all time ps = Fulfilled vs \<longleftrightarrow> ps = map Fulfilled vs"
proof
  assume "Promise_all time ps = Fulfilled vs"
  then show "ps = map Fulfilled vs"
    unfolding Promise_all_def by (rule settleInOrder_Fulfilled_D) auto
next
  assume "ps = map Fulfilled vs"
  then show "Promise_all time ps = Fulfilled vs" by (simp add: Promise_all_fulfilled)
qed

lemma settleInOrder_Rejected_D:
  "settleInOrder order ps vals = Rejected e \<Longrightarrow> \<exists>i\<in>set order. ps ! i = Rejected e"
proof (induction order arbitrary: vals)
  case Nil
  then show ?case by (simp split: option.splits)
next
  case (Cons i order)
  then show ?case by (cases "ps ! i") auto
qed

lemma settleInOrder_rejects:
  "\<exists>i\<in>set order. \<exists>e. ps ! i = Rejected e \<Longrightarrow> \<exists>e. settleInOrder order ps vals = Rejected e"
proof (induction order arbitrary: vals)
  case Nil
  then show ?case by simp
next
  case (Cons i order)
  then show ?case by (cases "ps ! i") auto
qed

lemma Promise_all_Rejected_D:
  assumes "Promise_all time ps = Rejected e"
  shows "\<exists>i<length ps. ps ! i = Rejected e"
proof -
  from assms obtain i where "i \<in> set (sort_key time [0..<length ps])" "ps ! i = Rejected e"
    unfolding Promise_all_def by (blast dest: settleInOrder_Rejected_D)
  then show ?thesis by auto
qed

lemma Promise_all_rejects:
  assumes "i < length ps" "ps ! i = Rejected e"
  shows "\<exists>e'. Promise_all time ps = Rejected e'"
  unfolding Promise_all_def
  by (rule settleInOrder_rejects) (use assms in auto)

section \<open>The event name\<close>

lemma shift_split: "shift (split c s) = Some (takeWhile (\<lambda>x. x \<noteq> c) s)"
  by (induction s) (auto simp: shift_def split: list.splits)

lemma eventNameOf_eq:
  "eventNameOf j = (if takeWhile (\<lambda>c. c \<noteq> CHR ''-'') (data_type j) = [] then None
                    else Some (takeWhile (\<lambda>c. c \<noteq> CHR ''-'') (data_type j)))"
  by (simp add: eventNameOf_def shift_split truthy_def)

lemma queueLength_cases:
  "queueLength W =
     (case IngestionQueue_count W of
        None \<Rightarrow> ([], Fulfilled None)
      | Some Pending \<Rightarrow> ([], Pending)
      | Some (Rejected e) \<Rightarrow> ([], Rejected e)
      | Some (Fulfilled count) \<Rightarrow>
          ([LoggerDebug (''Ingestion queue length: '' @ string_of_nat count),
            RecordGauge ''langfuse.queue.ingestion.length'' count ''records''],
           Fulfilled (Some count)))"
  by (simp add: queueLength_def promise_then_def promise_catch_def split: option.splits promise.splits)

section \<open>The stages of the processor\<close>

text \<open>The processor in terms of its try block.\<close>

lemma outcome_processor: "outcome (ingestionQueueProcessor E W j cache) = outcome (tryBlock E W j cache)"
  by (cases "tryBlock E W j cache" rule: prod_cases3)
     (auto simp: ingestionQueueProcessor_def outcome_def split: promise.splits)

lemma effects_processor:
  "effects (ingestionQueueProcessor E W j cache) =
     effects (tryBlock E W j cache) @
       (case outcome (tryBlock E W j cache) of
          Rejected e \<Rightarrow> [LoggerError (''Failed job ingestion processing for '' @ projectId j) e,
                           TraceException e]
        | _ \<Rightarrow> [])"
  by (cases "tryBlock E W j cache" rule: prod_cases3)
     (auto simp: ingestionQueueProcessor_def outcome_def effects_def split: promise.splits)

text \<open>The outcome and the effects of each stage.\<close>

lemma recordTelemetry_outcome:
  "snd (recordTelemetry W j st) =
     (case IngestionQueue_count W of
        None \<Rightarrow> Fulfilled ()
      | Some Pending \<Rightarrow> Pending
      | Some (Rejected e) \<Rightarrow> Rejected e
      | Some (Fulfilled count) \<Rightarrow> Fulfilled ())"
  by (simp add: recordTelemetry_def queueLength_cases Let_def split: option.splits promise.splits)

lemma recordTelemetry_effects:
  "filter isMerge (fst (recordTelemetry W j st)) = []"
  "filter isStorageAccess (fst (recordTelemetry W j st)) = []"
  "filter isFailureReport (fst (recordTelemetry W j st)) = []"
  "RecordIncrement ''langfuse.queue.ingestion.request'' \<in> set (fst (recordTelemetry W j st))"
  by (simp_all add: recordTelemetry_def queueLength_cases Let_def split: option.splits promise.splits)


lemma assembleEvents_outcome:
  "snd (assembleEvents W c folder) =
     (case listFiles W c folder of
        Pending \<Rightarrow> Pending
      | Rejected e \<Rightarrow> Rejected e
      | Fulfilled eventFiles \<Rightarrow>
          (case Promise_all (completionTime W) (map (fragmentEvents W c) eventFiles) of
             Pending \<Rightarrow> Pending
           | Rejected e \<Rightarrow> Rejected e
           | Fulfilled fragments \<Rightarrow> Fulfilled (concat fragments)))"
  by (simp add: assembleEvents_def split: promise.splits)

lemma assembleEvents_effects:
  "fst (assembleEvents W c folder) =
     ListFiles folder #
       (case listFiles W c folder of Fulfilled eventFiles \<Rightarrow> map Download eventFiles | _ \<Rightarrow> [])"
  by (simp add: assembleEvents_def split: promise.splits)

lemma processEvents_outcome:
  "snd (processEvents W j st events) =
     (case events of
        [] \<Rightarrow> Fulfilled ()
      | event0 # rest \<Rightarrow>
          if \<not> redis W then Rejected (Error ''Redis not available'')
          else if \<not> prisma W then Rejected (Error ''Prisma not available'')
          else (case getClickhouseEntityType W event0 of
                  Inl e \<Rightarrow> Rejected e
                | Inr entityType \<Rightarrow>
                    (case mergeAndWrite W entityType (projectId j) (eventBodyId j) events of
                       Pending \<Rightarrow> Pending
                     | Rejected e \<Rightarrow> Rejected e
                     | Fulfilled _ \<Rightarrow> snd (recordTelemetry W j st))))"
  by (simp add: processEvents_def split: list.splits sum.splits promise.splits prod.splits)

lemma processEvents_effects:
  "fst (processEvents W j st events) =
     (case events of
        [] \<Rightarrow> [LoggerWarn (''No events found for project '' @ projectId j
                         @ '' and event '' @ eventBodyId j)]
      | event0 # rest \<Rightarrow>
          if \<not> redis W \<or> \<not> prisma W then []
          else (case getClickhouseEntityType W event0 of
                  Inl e \<Rightarrow> []
                | Inr entityType \<Rightarrow>
                    MergeAndWrite entityType (projectId j) (eventBodyId j) events #
                      (case mergeAndWrite W entityType (projectId j) (eventBodyId j) events of
                         Fulfilled _ \<Rightarrow> fst (recordTelemetry W j st)
                       | _ \<Rightarrow> [])))"
  by (simp add: processEvents_def split: list.splits sum.splits promise.splits prod.splits)

lemma tryBlock_outcome:
  "outcome (tryBlock E W j cache) =
     (case configuredBucket E of
        None \<Rightarrow> Rejected (Error ''S3 event store is not enabled but useS3EventStore is true'')
      | Some bucket \<Rightarrow>
          (case eventNameOf j of
             None \<Rightarrow> Rejected (Error ''Event name not found'')
           | Some eventName \<Rightarrow>
               (case snd (assembleEvents W (fst (getS3StorageServiceClient E bucket cache))
                            (storagePrefix E j eventName)) of
                  Pending \<Rightarrow> Pending
                | Rejected e \<Rightarrow> Rejected e
                | Fulfilled events \<Rightarrow> snd (processEvents W j (Date_now W 0) events))))"
  by (simp add: tryBlock_def outcome_def Let_def split: option.splits prod.splits promise.splits)

lemma tryBlock_effects:
  "effects (tryBlock E W j cache) =
     (case configuredBucket E of
        None \<Rightarrow> []
      | Some bucket \<Rightarrow>
          map NewS3StorageService (snd (snd (getS3StorageServiceClient E bucket cache))) @
          (case eventNameOf j of
             None \<Rightarrow> []
           | Some eventName \<Rightarrow>
               LoggerInfo ''Processing ingestion event'' (projectId j) (data_type j) (eventBodyId j) #
               fst (assembleEvents W (fst (getS3StorageServiceClient E bucket cache))
                      (storagePrefix E j eventName)) @
               (case snd (assembleEvents W (fst (getS3StorageServiceClient E bucket cache))
                            (storagePrefix E j eventName)) of
                  Fulfilled events \<Rightarrow> fst (processEvents W j (Date_now W 0) events)
                | _ \<Rightarrow> [])))"
  by (simp add: tryBlock_def effects_def Let_def split: option.splits prod.splits promise.splits)


text \<open>
  The scenario of the specification, run: the second fragment completes first, the events
  are merged in listing order, once, and the telemetry follows the merge.
\<close>

lemma example_attempt:
  "ingestionQueueProcessor exampleEnv exampleWorld exampleJob None =
     (Some exampleClient,
      [NewS3StorageService exampleClient,
       LoggerInfo ''Processing ingestion event'' ''p1'' ''trace-create'' ''b1'',
       ListFiles ''events/p1/trace/b1/'', Download ''A'', Download ''B'',
       MergeAndWrite ''trace'' ''p1'' ''b1'' [''t1'', ''t2'', ''t3''],
       RecordIncrement ''langfuse.queue.ingestion.request'',
       RecordHistogram ''langfuse.queue.ingestion.wait_time'' 60 ''milliseconds'',
       LoggerDebug ''Ingestion queue length: 7'',
       RecordGauge ''langfuse.queue.ingestion.length'' 7 ''records'',
       RecordHistogram ''langfuse.queue.ingestion.processing_time'' 20 ''milliseconds''],
      Fulfilled ())"
  by code_simp

section \<open>The cached storage client\<close>

lemma calls_cached:
  "getS3StorageServiceClient_calls E bs (Some c) = (replicate (length bs) c, Some c, [])"
  by (induction bs) (simp_all add: getS3StorageServiceClient_def)

text \<open>
  C10. In a process whose variable starts unset, the first call of the accessor builds a
  client with the bucket name of that call, and every later call, with whatever bucket
  name, returns that same client and builds nothing: the run of calls constructs exactly
  one client. From any value of the variable, a run of calls constructs at most one.
\<close>

theorem C10_client_constructed_once:
  "getS3StorageServiceClient_calls E (b # bs) None =
     (replicate (Suc (length bs)) (fst (getS3StorageServiceClient E b None)),
      Some (fst (getS3StorageServiceClient E b None)),
      [fst (getS3StorageServiceClient E b None)])
   \<and> bucketName (fst (getS3StorageServiceClient E b None)) = b
   \<and> length (snd (snd (getS3StorageServiceClient_calls E cs s))) \<le> 1"
proof -
  have "length (snd (snd (getS3StorageServiceClient_calls E cs s))) \<le> 1"
  proof (cases cs)
    case Nil
    then show ?thesis by simp
  next
    case (Cons c cs')
    then show ?thesis
      by (cases s) (simp_all add: getS3StorageServiceClient_def calls_cached Let_def)
  qed
  then show ?thesis
    by (simp add: getS3StorageServiceClient_def calls_cached Let_def)
qed

lemma example_three_calls:
  "getS3StorageServiceClient_calls exampleEnv [''events'', ''other'', ''third''] None =
     ([exampleClient, exampleClient, exampleClient], Some exampleClient, [exampleClient])"
  by (simp add: getS3StorageServiceClient_def exampleEnv_def exampleClient_def Let_def)

section \<open>Which effects a stage has\<close>

lemma filter_constructed [simp]:
  "filter isMerge (map NewS3StorageService cs) = ([] :: ('ev, 'en) effect list)"
  "filter isStorageAccess (map NewS3StorageService cs) = ([] :: ('ev, 'en) effect list)"
  "filter isFailureReport (map NewS3StorageService cs) = ([] :: ('ev, 'en) effect list)"
  by (induction cs) simp_all

lemma filter_downloads [simp]:
  "filter isMerge (map Download ks) = ([] :: ('ev, 'en) effect list)"
  "filter isStorageAccess (map Download ks) = (map Download ks :: ('ev, 'en) effect list)"
  "filter isFailureReport (map Download ks) = ([] :: ('ev, 'en) effect list)"
  "List.map_filter listedPrefix (map Download ks :: ('ev, 'en) effect list) = []"
  by (induction ks) (simp_all add: List.map_filter_simps)

lemma map_filter_constructed [simp]:
  "List.map_filter listedPrefix (map NewS3StorageService cs :: ('ev, 'en) effect list) = []"
  by (induction cs) (simp_all add: List.map_filter_simps)

lemma map_filter_append: "List.map_filter f (xs @ ys) = List.map_filter f xs @ List.map_filter f ys"
  by (simp add: List.map_filter_def)

lemma recordTelemetry_listed [simp]:
  "List.map_filter listedPrefix (fst (recordTelemetry W j st)) = []"
  by (simp add: recordTelemetry_def queueLength_cases Let_def List.map_filter_simps map_filter_append
      split: option.splits promise.splits)

lemma processEvents_filters:
  "filter isStorageAccess (fst (processEvents W j st events)) = []"
  "filter isFailureReport (fst (processEvents W j st events)) = []"
  "List.map_filter listedPrefix (fst (processEvents W j st events)) = []"
  by (simp_all add: processEvents_effects recordTelemetry_effects List.map_filter_simps
      split: list.splits sum.splits promise.splits)

lemma processEvents_merges:
  "filter isMerge (fst (processEvents W j st events)) =
     (case events of
        [] \<Rightarrow> []
      | event0 # rest \<Rightarrow>
          if \<not> redis W \<or> \<not> prisma W then []
          else (case getClickhouseEntityType W event0 of
                  Inl e \<Rightarrow> []
                | Inr entityType \<Rightarrow>
                    [MergeAndWrite entityType (projectId j) (eventBodyId j) events]))"
  by (simp add: processEvents_effects recordTelemetry_effects
      split: list.splits sum.splits promise.splits)

lemma assembleEvents_filters:
  "filter isMerge (fst (assembleEvents W c folder)) = []"
  "filter isFailureReport (fst (assembleEvents W c folder)) = []"
  "List.map_filter listedPrefix (fst (assembleEvents W c folder)) = [folder]"
  by (simp_all add: assembleEvents_effects List.map_filter_simps split: promise.splits)

lemma tryBlock_no_failure_report:
  "filter isFailureReport (effects (tryBlock E W j cache)) = []"
  by (simp add: tryBlock_effects assembleEvents_filters processEvents_filters
      split: option.splits promise.splits)

lemma tryBlock_merges:
  "filter isMerge (effects (tryBlock E W j cache)) =
     (case configuredBucket E of
        None \<Rightarrow> []
      | Some bucket \<Rightarrow>
          (case eventNameOf j of
             None \<Rightarrow> []
           | Some eventName \<Rightarrow>
               (case snd (assembleEvents W (fst (getS3StorageServiceClient E bucket cache))
                            (storagePrefix E j eventName)) of
                  Fulfilled events \<Rightarrow> filter isMerge (fst (processEvents W j (Date_now W 0) events))
                | _ \<Rightarrow> [])))"
  by (simp add: tryBlock_effects assembleEvents_filters
      split: option.splits promise.splits)

lemma processor_merges:
  "filter isMerge (effects (ingestionQueueProcessor E W j cache)) =
     filter isMerge (effects (tryBlock E W j cache))"
  by (simp add: effects_processor split: promise.splits)

lemma processor_listed:
  "List.map_filter listedPrefix (effects (ingestionQueueProcessor E W j cache)) =
     (case configuredBucket E of
        None \<Rightarrow> []
      | Some bucket \<Rightarrow>
          (case eventNameOf j of
             None \<Rightarrow> []
           | Some eventName \<Rightarrow> [storagePrefix E j eventName]))"
  by (simp add: effects_processor tryBlock_effects map_filter_append List.map_filter_simps
        assembleEvents_filters processEvents_filters
      split: option.splits promise.splits)

lemma processor_storage_access:
  "eventNameOf j = None \<Longrightarrow>
     filter isStorageAccess (effects (ingestionQueueProcessor E W j cache)) = []"
  by (simp add: effects_processor tryBlock_effects split: option.splits promise.splits)

section \<open>The empty batch\<close>

text \<open>
  C2. When the bucket is configured, the event name is derivable and the listing of the
  job's folder is fulfilled with no key, the assembled sequence is empty, the attempt is
  fulfilled, the warning is logged, \<open>mergeAndWrite\<close> is not called and no failure is
  reported.
\<close>

theorem C2_no_fragments:
  assumes "configuredBucket E = Some bucket"
    and "eventNameOf j = Some eventName"
    and "listFiles W (fst (getS3StorageServiceClient E bucket cache))
           (storagePrefix E j eventName) = Fulfilled []"
  shows "snd (assembleEvents W (fst (getS3StorageServiceClient E bucket cache))
                (storagePrefix E j eventName)) = Fulfilled []
       \<and> outcome (ingestionQueueProcessor E W j cache) = Fulfilled ()
       \<and> LoggerWarn (''No events found for project '' @ projectId j @ '' and event ''
                       @ eventBodyId j)
           \<in> set (effects (ingestionQueueProcessor E W j cache))
       \<and> filter isMerge (effects (ingestionQueueProcessor E W j cache)) = []
       \<and> filter isFailureReport (effects (ingestionQueueProcessor E W j cache)) = []"
proof -
  have a: "snd (assembleEvents W (fst (getS3StorageServiceClient E bucket cache))
                  (storagePrefix E j eventName)) = Fulfilled []"
    by (simp add: assembleEvents_outcome assms(3) Promise_all_def)
  have o: "outcome (tryBlock E W j cache) = Fulfilled ()"
    by (simp add: tryBlock_outcome assms(1,2) a processEvents_outcome)
  have w: "LoggerWarn (''No events found for project '' @ projectId j @ '' and event ''
                         @ eventBodyId j) \<in> set (effects (tryBlock E W j cache))"
    by (simp add: tryBlock_effects assms(1,2) a processEvents_effects)
  have m: "filter isMerge (effects (tryBlock E W j cache)) = []"
    by (simp add: tryBlock_merges assms(1,2) a processEvents_merges)
  show ?thesis
    using a o w m
    by (simp add: outcome_processor effects_processor tryBlock_no_failure_report)
qed

theorem C2_no_fragments_witness:
  "configuredBucket exampleEnv = Some ''events''
   \<and> eventNameOf exampleJob = Some ''trace''
   \<and> listFiles (exampleWorld\<lparr>listFiles := \<lambda>c p. Fulfilled []\<rparr>)
        (fst (getS3StorageServiceClient exampleEnv ''events'' None))
        (storagePrefix exampleEnv exampleJob ''trace'') = Fulfilled []
   \<and> outcome (ingestionQueueProcessor exampleEnv (exampleWorld\<lparr>listFiles := \<lambda>c p. Fulfilled []\<rparr>)
                exampleJob None) = Fulfilled ()
   \<and> LoggerWarn ''No events found for project p1 and event b1''
       \<in> set (effects (ingestionQueueProcessor exampleEnv
                         (exampleWorld\<lparr>listFiles := \<lambda>c p. Fulfilled []\<rparr>) exampleJob None))
   \<and> filter isMerge (effects (ingestionQueueProcessor exampleEnv
                         (exampleWorld\<lparr>listFiles := \<lambda>c p. Fulfilled []\<rparr>) exampleJob None)) = []"
proof -
  have h1: "configuredBucket exampleEnv = Some ''events''" by code_simp
  have h2: "eventNameOf exampleJob = Some ''trace''" by code_simp
  have h3: "listFiles (exampleWorld\<lparr>listFiles := \<lambda>c p. Fulfilled []\<rparr>)
        (fst (getS3StorageServiceClient exampleEnv ''events'' None))
        (storagePrefix exampleEnv exampleJob ''trace'') = Fulfilled []" by simp
  have p: "projectId exampleJob = ''p1''" "eventBodyId exampleJob = ''b1''"
    by (simp_all add: exampleJob_def)
  show ?thesis
    using C2_no_fragments [OF h1 h2 h3] h1 h2 h3 by (simp add: p)
qed

section \<open>The event name and the storage prefix\<close>

text \<open>
  C7. The first element of the type tag split at dashes is the part of the tag before
  its first dash, and that part is the event name in the folder the attempt lists. When
  it is empty, the attempt is rejected without any listing or download, and with a
  configured bucket the error is \<open>Event name not found\<close>.
\<close>

theorem C7_event_name_prefix:
  "shift (split (CHR ''-'') (data_type j)) = Some (takeWhile (\<lambda>c. c \<noteq> CHR ''-'') (data_type j))
   \<and> (\<forall>bucket. configuredBucket E = Some bucket
          \<and> takeWhile (\<lambda>c. c \<noteq> CHR ''-'') (data_type j) \<noteq> [] \<longrightarrow>
        List.map_filter listedPrefix (effects (ingestionQueueProcessor E W j cache)) =
          [LANGFUSE_S3_EVENT_UPLOAD_PREFIX E @ projectId j @ ''/''
             @ takeWhile (\<lambda>c. c \<noteq> CHR ''-'') (data_type j) @ ''/'' @ eventBodyId j @ ''/''])
   \<and> (takeWhile (\<lambda>c. c \<noteq> CHR ''-'') (data_type j) = [] \<longrightarrow>
        (\<exists>e. outcome (ingestionQueueProcessor E W j cache) = Rejected e)
        \<and> filter isStorageAccess (effects (ingestionQueueProcessor E W j cache)) = []
        \<and> (\<forall>bucket. configuredBucket E = Some bucket \<longrightarrow>
              outcome (ingestionQueueProcessor E W j cache)
                = Rejected (Error ''Event name not found'')))"
  by (auto simp: shift_split processor_listed eventNameOf_eq storagePrefix_def
        processor_storage_access outcome_processor tryBlock_outcome split: option.splits)

theorem C7_event_name_prefix_witness:
  "takeWhile (\<lambda>c. c \<noteq> CHR ''-'') (data_type (exampleJob\<lparr>data_type := ''-create''\<rparr>)) = []
   \<and> configuredBucket exampleEnv = Some ''events''
   \<and> outcome (ingestionQueueProcessor exampleEnv exampleWorld
                (exampleJob\<lparr>data_type := ''-create''\<rparr>) None)
       = Rejected (Error ''Event name not found'')
   \<and> filter isStorageAccess (effects (ingestionQueueProcessor exampleEnv exampleWorld
                (exampleJob\<lparr>data_type := ''-create''\<rparr>) None)) = []
   \<and> takeWhile (\<lambda>c. c \<noteq> CHR ''-'') (data_type exampleJob) = ''trace''
   \<and> List.map_filter listedPrefix (effects (ingestionQueueProcessor exampleEnv exampleWorld
                exampleJob None)) = [''events/p1/trace/b1/'']"
proof -
  have h1: "configuredBucket exampleEnv = Some ''events''" by code_simp
  have h2: "takeWhile (\<lambda>c. c \<noteq> CHR ''-'') (data_type (exampleJob\<lparr>data_type := ''-create''\<rparr>)) = []"
    by simp
  have h3: "takeWhile (\<lambda>c. c \<noteq> CHR ''-'') (data_type exampleJob) = ''trace''"
    by (simp add: exampleJob_def)
  have p: "projectId exampleJob = ''p1''" "eventBodyId exampleJob = ''b1''"
     "LANGFUSE_S3_EVENT_UPLOAD_PREFIX exampleEnv = ''events/''"
    by (simp_all add: exampleJob_def exampleEnv_def)
  show ?thesis
    using C7_event_name_prefix [of "exampleJob\<lparr>data_type := ''-create''\<rparr>" exampleEnv exampleWorld None]
      C7_event_name_prefix [of exampleJob exampleEnv exampleWorld None] h1 h2 h3
    by (simp add: p)
qed

section \<open>The merge call\<close>

text \<open>
  C6. The attempt calls \<open>mergeAndWrite\<close> at most once. When it does, the assembly was
  fulfilled with a non-empty sequence of events, and the call receives the entity type
  of the first of them, the project id and the event body id of the job, and the whole
  sequence.
\<close>

theorem C6_merge_at_most_once:
  "filter isMerge (effects (ingestionQueueProcessor E W j cache)) = []
   \<or> (\<exists>bucket eventName events entityType.
         configuredBucket E = Some bucket
       \<and> eventNameOf j = Some eventName
       \<and> snd (assembleEvents W (fst (getS3StorageServiceClient E bucket cache))
                 (storagePrefix E j eventName)) = Fulfilled events
       \<and> events \<noteq> []
       \<and> getClickhouseEntityType W (hd events) = Inr entityType
       \<and> filter isMerge (effects (ingestionQueueProcessor E W j cache)) =
           [MergeAndWrite entityType (projectId j) (eventBodyId j) events])"
  by (auto simp: processor_merges tryBlock_merges processEvents_merges
      split: option.splits promise.splits list.splits sum.splits)

theorem C6_merge_at_most_once_witness:
  "filter isMerge (effects (ingestionQueueProcessor exampleEnv exampleWorld exampleJob None)) =
     [MergeAndWrite ''trace'' ''p1'' ''b1'' [''t1'', ''t2'', ''t3'']]
   \<and> filter isMerge (effects (ingestionQueueProcessor exampleEnv exampleWorld_noFragments
                                exampleJob None)) = []"
proof -
  have ne: "filter isMerge (effects (ingestionQueueProcessor exampleEnv exampleWorld exampleJob None)) \<noteq> []"
    by code_simp
  have b: "configuredBucket exampleEnv = Some ''events''" by code_simp
  have n: "eventNameOf exampleJob = Some ''trace''" by code_simp
  have a: "snd (assembleEvents exampleWorld (fst (getS3StorageServiceClient exampleEnv ''events'' None))
                 (storagePrefix exampleEnv exampleJob ''trace'')) = Fulfilled [''t1'', ''t2'', ''t3'']"
    by code_simp
  have t: "getClickhouseEntityType exampleWorld ''t1'' = Inr ''trace''"
    by (simp add: exampleWorld_def)
  have p: "projectId exampleJob = ''p1''" "eventBodyId exampleJob = ''b1''"
    by (simp_all add: exampleJob_def)
  have e: "filter isMerge (effects (ingestionQueueProcessor exampleEnv exampleWorld_noFragments
                                exampleJob None)) = []"
    by code_simp
  show ?thesis
    using C6_merge_at_most_once [of exampleEnv exampleWorld exampleJob None] ne b n a t e
    by (auto simp: p)
qed

section \<open>The request counter\<close>

lemma merge_mem_filter:
  "MergeAndWrite a b c d \<in> set xs \<longleftrightarrow> MergeAndWrite a b c d \<in> set (filter isMerge xs)"
  by simp

lemma processEvents_increment:
  "RecordIncrement ''langfuse.queue.ingestion.request'' \<in> set (fst (processEvents W j st events)) \<longleftrightarrow>
     (\<exists>entityType evs.
        MergeAndWrite entityType (projectId j) (eventBodyId j) evs
          \<in> set (filter isMerge (fst (processEvents W j st events)))
      \<and> mergeAndWrite W entityType (projectId j) (eventBodyId j) evs = Fulfilled ())"
proof (cases events)
  case Nil
  then show ?thesis by (simp add: processEvents_effects processEvents_merges)
next
  case (Cons event0 rest)
  show ?thesis
  proof (cases "getClickhouseEntityType W event0")
    case (Inl e)
    with Cons show ?thesis by (simp add: processEvents_effects processEvents_merges)
  next
    case (Inr entityType)
    with Cons show ?thesis
      by (cases "mergeAndWrite W entityType (projectId j) (eventBodyId j) (event0 # rest)")
         (auto simp: processEvents_effects processEvents_merges recordTelemetry_effects)
  qed
qed

lemma tryBlock_increment:
  "RecordIncrement r \<in> set (effects (tryBlock E W j cache)) \<longleftrightarrow>
     (\<exists>bucket eventName events.
        configuredBucket E = Some bucket \<and> eventNameOf j = Some eventName
      \<and> snd (assembleEvents W (fst (getS3StorageServiceClient E bucket cache))
                (storagePrefix E j eventName)) = Fulfilled events
      \<and> RecordIncrement r \<in> set (fst (processEvents W j (Date_now W 0) events)))"
proof (cases "configuredBucket E")
  case None
  then show ?thesis by (simp add: tryBlock_effects)
next
  case bucket: (Some bucket)
  show ?thesis
  proof (cases "eventNameOf j")
    case None
    with bucket show ?thesis by (simp add: tryBlock_effects) auto
  next
    case (Some eventName)
    with bucket show ?thesis
      by (cases "snd (assembleEvents W (fst (getS3StorageServiceClient E bucket cache))
                (storagePrefix E j eventName))")
         (auto simp: tryBlock_effects assembleEvents_effects split: promise.splits)
  qed
qed

lemma tryBlock_merge_mem:
  "x \<in> set (filter isMerge (effects (tryBlock E W j cache))) \<longleftrightarrow>
     (\<exists>bucket eventName events.
        configuredBucket E = Some bucket \<and> eventNameOf j = Some eventName
      \<and> snd (assembleEvents W (fst (getS3StorageServiceClient E bucket cache))
                (storagePrefix E j eventName)) = Fulfilled events
      \<and> x \<in> set (filter isMerge (fst (processEvents W j (Date_now W 0) events))))"
proof (cases "configuredBucket E")
  case None
  then show ?thesis by (simp add: tryBlock_merges)
next
  case bucket: (Some bucket)
  show ?thesis
  proof (cases "eventNameOf j")
    case None
    with bucket show ?thesis by (simp add: tryBlock_merges)
  next
    case (Some eventName)
    with bucket show ?thesis
      by (cases "snd (assembleEvents W (fst (getS3StorageServiceClient E bucket cache))
                (storagePrefix E j eventName))")
         (simp_all add: tryBlock_merges)
  qed
qed

lemma increment_mem_tryBlock:
  "RecordIncrement ''langfuse.queue.ingestion.request'' \<in> set (effects (tryBlock E W j cache)) \<longleftrightarrow>
     (\<exists>entityType events.
        MergeAndWrite entityType (projectId j) (eventBodyId j) events
          \<in> set (filter isMerge (effects (tryBlock E W j cache)))
      \<and> mergeAndWrite W entityType (projectId j) (eventBodyId j) events = Fulfilled ())"
  unfolding tryBlock_increment tryBlock_merge_mem processEvents_increment by blast

text \<open>
  C8, as the code has it. The counter \<open>langfuse.queue.ingestion.request\<close> is recorded
  exactly when the attempt has called \<open>mergeAndWrite\<close> and that call was fulfilled; it
  is not recorded when the empty batch is skipped, nor when the attempt fails at or
  before the merge.
\<close>

theorem C8_counter_after_merge:
  "RecordIncrement ''langfuse.queue.ingestion.request''
     \<in> set (effects (ingestionQueueProcessor E W j cache)) \<longleftrightarrow>
     (\<exists>entityType events.
        MergeAndWrite entityType (projectId j) (eventBodyId j) events
          \<in> set (effects (ingestionQueueProcessor E W j cache))
      \<and> mergeAndWrite W entityType (projectId j) (eventBodyId j) events = Fulfilled ())"
proof -
  have "RecordIncrement ''langfuse.queue.ingestion.request''
     \<in> set (effects (ingestionQueueProcessor E W j cache)) \<longleftrightarrow>
     RecordIncrement ''langfuse.queue.ingestion.request'' \<in> set (effects (tryBlock E W j cache))"
    by (auto simp: effects_processor split: promise.splits)
  moreover have "\<And>a b c d. MergeAndWrite a b c d \<in> set (effects (ingestionQueueProcessor E W j cache)) \<longleftrightarrow>
     MergeAndWrite a b c d \<in> set (filter isMerge (effects (tryBlock E W j cache)))"
    by (subst merge_mem_filter) (simp only: processor_merges)
  ultimately show ?thesis
    by (simp only: increment_mem_tryBlock)
qed

theorem C8_counter_after_merge_witness:
  "MergeAndWrite ''trace'' (projectId exampleJob) (eventBodyId exampleJob) [''t1'', ''t2'', ''t3'']
     \<in> set (effects (ingestionQueueProcessor exampleEnv exampleWorld exampleJob None))
   \<and> mergeAndWrite exampleWorld ''trace'' (projectId exampleJob) (eventBodyId exampleJob)
       [''t1'', ''t2'', ''t3''] = Fulfilled ()
   \<and> RecordIncrement ''langfuse.queue.ingestion.request''
       \<in> set (effects (ingestionQueueProcessor exampleEnv exampleWorld exampleJob None))"
proof -
  have m: "MergeAndWrite ''trace'' (projectId exampleJob) (eventBodyId exampleJob) [''t1'', ''t2'', ''t3'']
     \<in> set (effects (ingestionQueueProcessor exampleEnv exampleWorld exampleJob None))"
    by code_simp
  have f: "mergeAndWrite exampleWorld ''trace'' (projectId exampleJob) (eventBodyId exampleJob)
       [''t1'', ''t2'', ''t3''] = Fulfilled ()"
    by (simp add: exampleWorld_def)
  from m f show ?thesis
    using C8_counter_after_merge [of exampleEnv exampleWorld exampleJob None] by blast
qed

text \<open>
  C8 as the specification states it fails on the empty batch: the attempt is fulfilled
  and the counter is not among its effects.
\<close>

theorem C8_counterexample:
  "outcome (ingestionQueueProcessor exampleEnv exampleWorld_noFragments exampleJob None) = Fulfilled ()
   \<and> RecordIncrement ''langfuse.queue.ingestion.request''
       \<notin> set (effects (ingestionQueueProcessor exampleEnv exampleWorld_noFragments exampleJob None))"
  by code_simp

section \<open>The failure boundary\<close>

lemma tryBlock_listed_once:
  "length (List.map_filter listedPrefix (effects (ingestionQueueProcessor E W j cache))) \<le> 1"
  by (simp add: processor_listed split: option.splits)

lemma processor_merged_once:
  "length (filter isMerge (effects (ingestionQueueProcessor E W j cache))) \<le> 1"
  by (simp add: processor_merges tryBlock_merges processEvents_merges
      split: option.splits promise.splits list.splits sum.splits)

lemma processor_failure_reports:
  "filter isFailureReport (effects (ingestionQueueProcessor E W j cache)) =
     (case outcome (ingestionQueueProcessor E W j cache) of
        Rejected e \<Rightarrow> [LoggerError (''Failed job ingestion processing for '' @ projectId j) e,
                         TraceException e]
      | _ \<Rightarrow> [])"
  by (simp add: effects_processor outcome_processor tryBlock_no_failure_report split: promise.splits)

text \<open>
  What the \<open>catch\<close> does for every attempt: a rejected attempt has run the try block
  and then logged the error of the rejection with the project id and passed it to
  \<open>traceException\<close>, once each and in that order; an attempt that is not rejected
  reports no failure. Nothing is retried: the folder is listed and the merge is called at
  most once.
\<close>

lemma rejected_attempt_is_reported:
  "(outcome (ingestionQueueProcessor E W j cache) = Rejected e \<longrightarrow>
        outcome (tryBlock E W j cache) = Rejected e
        \<and> effects (ingestionQueueProcessor E W j cache) =
            effects (tryBlock E W j cache)
              @ [LoggerError (''Failed job ingestion processing for '' @ projectId j) e,
                 TraceException e]
        \<and> filter isFailureReport (effects (ingestionQueueProcessor E W j cache)) =
            [LoggerError (''Failed job ingestion processing for '' @ projectId j) e,
             TraceException e])
   \<and> ((\<forall>e'. outcome (ingestionQueueProcessor E W j cache) \<noteq> Rejected e') \<longrightarrow>
        filter isFailureReport (effects (ingestionQueueProcessor E W j cache)) = [])
   \<and> length (List.map_filter listedPrefix (effects (ingestionQueueProcessor E W j cache))) \<le> 1
   \<and> length (filter isMerge (effects (ingestionQueueProcessor E W j cache))) \<le> 1"
proof -
  have 1: "outcome (ingestionQueueProcessor E W j cache) = Rejected e \<longrightarrow>
        outcome (tryBlock E W j cache) = Rejected e"
    by (simp add: outcome_processor)
  have 2: "outcome (ingestionQueueProcessor E W j cache) = Rejected e \<longrightarrow>
        effects (ingestionQueueProcessor E W j cache) =
          effects (tryBlock E W j cache)
            @ [LoggerError (''Failed job ingestion processing for '' @ projectId j) e,
               TraceException e]"
    by (simp add: effects_processor outcome_processor)
  have 3: "outcome (ingestionQueueProcessor E W j cache) = Rejected e \<longrightarrow>
        filter isFailureReport (effects (ingestionQueueProcessor E W j cache)) =
            [LoggerError (''Failed job ingestion processing for '' @ projectId j) e,
             TraceException e]"
    by (simp add: processor_failure_reports)
  have 4: "(\<forall>e'. outcome (ingestionQueueProcessor E W j cache) \<noteq> Rejected e') \<longrightarrow>
        filter isFailureReport (effects (ingestionQueueProcessor E W j cache)) = []"
    by (cases "outcome (ingestionQueueProcessor E W j cache)")
       (simp_all add: processor_failure_reports)
  from 1 2 3 4 tryBlock_listed_once processor_merged_once show ?thesis by blast
qed

text \<open>
  C9, on the code. The claim has the processor raise an error only if a step of the
  categories configuration, input, storage, validation or merge raised one. On the
  scenario job with the promise of \<open>count()\<close> rejected, none of them does: the bucket
  is configured, the event name is derived, the listing is fulfilled, both fragments
  download and validate, the clients of the merge are available, the entity type is read
  and \<open>mergeAndWrite\<close> is fulfilled. The processor raises all the same, with the error
  of the read of the queue depth, logged and traced as a failure of the job.
\<close>

theorem C9_rejected_though_no_step_failed:
  "LANGFUSE_S3_EVENT_UPLOAD_ENABLED exampleEnv = Some ''true''
   \<and> LANGFUSE_S3_EVENT_UPLOAD_BUCKET exampleEnv = Some ''events''
   \<and> shift (split (CHR ''-'') (data_type exampleJob)) = Some ''trace''
   \<and> listFiles exampleWorld_depthFails exampleClient ''events/p1/trace/b1/''
       = Fulfilled [''A'', ''B'']
   \<and> fragmentEvents exampleWorld_depthFails exampleClient ''A'' = Fulfilled [''t1'']
   \<and> fragmentEvents exampleWorld_depthFails exampleClient ''B'' = Fulfilled [''t2'', ''t3'']
   \<and> redis exampleWorld_depthFails
   \<and> prisma exampleWorld_depthFails
   \<and> getClickhouseEntityType exampleWorld_depthFails ''t1'' = Inr ''trace''
   \<and> mergeAndWrite exampleWorld_depthFails ''trace'' ''p1'' ''b1'' [''t1'', ''t2'', ''t3'']
       = Fulfilled ()
   \<and> outcome (ingestionQueueProcessor exampleEnv exampleWorld_depthFails exampleJob None)
       = Rejected (Error ''Connection is closed.'')
   \<and> filter isFailureReport
       (effects (ingestionQueueProcessor exampleEnv exampleWorld_depthFails exampleJob None))
       = [LoggerError ''Failed job ingestion processing for p1'' (Error ''Connection is closed.''),
          TraceException (Error ''Connection is closed.'')]"
  by code_simp

section \<open>The read of the queue depth\<close>

lemma catch_without_handler: "promise_catch None p = p"
  by (simp add: promise_catch_def)

lemma depth_read_rejection:
  "IngestionQueue_count W = Some (Rejected e) \<Longrightarrow> snd (recordTelemetry W j st) = Rejected e"
  by (simp add: recordTelemetry_outcome)

text \<open>
  C1, on the code. The scenario job with both fragments valid and the merge fulfilled,
  the promise of \<open>count()\<close> rejected: \<open>catch()\<close> has no handler, the awaited chain is
  rejected, and the attempt is rejected with the error of the depth read, after the
  merge has been made.
\<close>

theorem C1_depth_read_rejection_fails_attempt:
  "ingestionQueueProcessor exampleEnv exampleWorld_depthFails exampleJob None =
     (Some exampleClient,
      [NewS3StorageService exampleClient,
       LoggerInfo ''Processing ingestion event'' ''p1'' ''trace-create'' ''b1'',
       ListFiles ''events/p1/trace/b1/'', Download ''A'', Download ''B'',
       MergeAndWrite ''trace'' ''p1'' ''b1'' [''t1'', ''t2'', ''t3''],
       RecordIncrement ''langfuse.queue.ingestion.request'',
       RecordHistogram ''langfuse.queue.ingestion.wait_time'' 60 ''milliseconds'',
       LoggerError ''Failed job ingestion processing for p1'' (Error ''Connection is closed.''),
       TraceException (Error ''Connection is closed.'')],
      Rejected (Error ''Connection is closed.''))"
  by code_simp

section \<open>Validation of one fragment\<close>

text \<open>
  C3. For a fragment that downloads and parses as JSON, the batch schema is tried first
  and the single-event schema only when the batch schema has failed. A fragment that
  validates as a batch contributes the events of the batch as they are (as many, in the
  same order); one that validates only as a single event contributes that one event.
\<close>

theorem C3_batch_first_then_single:
  assumes "download W c key = Fulfilled file"
    and "JSON_parse W file = Inr parsedFile"
  shows "take 1 (fst (validateFragment W parsedFile)) = [BatchShape]
       \<and> (SingleShape \<in> set (fst (validateFragment W parsedFile)) \<longleftrightarrow>
            (\<exists>m. ingestionBatchEvent_safeParse W parsedFile = Failure m))
       \<and> (\<forall>events. ingestionBatchEvent_safeParse W parsedFile = Success events \<longrightarrow>
            validateFragment W parsedFile = ([BatchShape], Inr events)
            \<and> fragmentEvents W c key = Fulfilled events)
       \<and> (\<forall>m event. ingestionBatchEvent_safeParse W parsedFile = Failure m
              \<and> ingestionEvent_safeParse W parsedFile = Success event \<longrightarrow>
            validateFragment W parsedFile = ([BatchShape, SingleShape], Inr [event])
            \<and> fragmentEvents W c key = Fulfilled [event])"
  using assms
  by (auto simp: validateFragment_def fragmentEvents_def split: SafeParseReturn.splits)

theorem C3_batch_first_then_single_witness:
  "download exampleWorld exampleClient ''B'' = Fulfilled ''[t2,t3]''
   \<and> JSON_parse exampleWorld ''[t2,t3]'' = Inr ''[t2,t3]''
   \<and> ingestionBatchEvent_safeParse exampleWorld ''[t2,t3]'' = Success [''t2'', ''t3'']
   \<and> validateFragment exampleWorld ''[t2,t3]'' = ([BatchShape], Inr [''t2'', ''t3''])
   \<and> fragmentEvents exampleWorld exampleClient ''B'' = Fulfilled [''t2'', ''t3'']
   \<and> download exampleWorld exampleClient ''A'' = Fulfilled ''{t1}''
   \<and> JSON_parse exampleWorld ''{t1}'' = Inr ''{t1}''
   \<and> ingestionBatchEvent_safeParse exampleWorld ''{t1}'' = Failure ''Expected array''
   \<and> ingestionEvent_safeParse exampleWorld ''{t1}'' = Success ''t1''
   \<and> validateFragment exampleWorld ''{t1}'' = ([BatchShape, SingleShape], Inr [''t1''])
   \<and> fragmentEvents exampleWorld exampleClient ''A'' = Fulfilled [''t1'']"
proof -
  have b1: "download exampleWorld exampleClient ''B'' = Fulfilled ''[t2,t3]''"
    and b2: "JSON_parse exampleWorld ''[t2,t3]'' = Inr ''[t2,t3]''"
    and b3: "ingestionBatchEvent_safeParse exampleWorld ''[t2,t3]'' = Success [''t2'', ''t3'']"
    and a1: "download exampleWorld exampleClient ''A'' = Fulfilled ''{t1}''"
    and a2: "JSON_parse exampleWorld ''{t1}'' = Inr ''{t1}''"
    and a3: "ingestionBatchEvent_safeParse exampleWorld ''{t1}'' = Failure ''Expected array''"
    and a4: "ingestionEvent_safeParse exampleWorld ''{t1}'' = Success ''t1''"
    by (simp_all add: exampleWorld_def)
  from C3_batch_first_then_single [OF b1 b2] b3
  have b: "validateFragment exampleWorld ''[t2,t3]'' = ([BatchShape], Inr [''t2'', ''t3''])
         \<and> fragmentEvents exampleWorld exampleClient ''B'' = Fulfilled [''t2'', ''t3'']"
    by blast
  from C3_batch_first_then_single [OF a1 a2] a3 a4
  have a: "validateFragment exampleWorld ''{t1}'' = ([BatchShape, SingleShape], Inr [''t1''])
         \<and> fragmentEvents exampleWorld exampleClient ''A'' = Fulfilled [''t1'']"
    by blast
  from a b a1 a2 a3 a4 b1 b2 b3 show ?thesis by simp
qed

section \<open>The order of the assembled events\<close>

lemma fragmentEvents_completionTime [simp]:
  "fragmentEvents (W\<lparr>completionTime := time\<rparr>) = fragmentEvents W"
  by (intro ext)
     (simp add: fragmentEvents_def validateFragment_def
        split: promise.splits sum.splits SafeParseReturn.splits)

text \<open>
  C4. When the listing is fulfilled with the keys \<open>keys\<close> and every fragment is
  fulfilled, the assembled sequence is the concatenation of the fragments' events in the
  order of \<open>keys\<close>, whatever the completion times of the fragments are.
\<close>

theorem C4_listing_order:
  assumes "listFiles W c folder = Fulfilled keys"
    and "\<forall>key\<in>set keys. fragmentEvents W c key = Fulfilled (contribution key)"
  shows "snd (assembleEvents (W\<lparr>completionTime := time\<rparr>) c folder) =
           Fulfilled (concat (map contribution keys))"
proof -
  have "map (fragmentEvents W c) keys = map Fulfilled (map contribution keys)"
    using assms(2) by simp
  then have "Promise_all time (map (fragmentEvents W c) keys) =
               Fulfilled (map contribution keys)"
    by (simp only: Promise_all_fulfilled)
  then show ?thesis
    by (simp add: assembleEvents_outcome assms(1))
qed

theorem C4_listing_order_witness:
  "listFiles exampleWorld exampleClient ''events/p1/trace/b1/'' = Fulfilled [''A'', ''B'']
   \<and> fragmentEvents exampleWorld exampleClient ''A'' = Fulfilled [''t1'']
   \<and> fragmentEvents exampleWorld exampleClient ''B'' = Fulfilled [''t2'', ''t3'']
   \<and> snd (assembleEvents (exampleWorld\<lparr>completionTime := (\<lambda>i. i)\<rparr>) exampleClient
             ''events/p1/trace/b1/'') = Fulfilled [''t1'', ''t2'', ''t3'']
   \<and> snd (assembleEvents (exampleWorld\<lparr>completionTime := (\<lambda>i. 10 - i)\<rparr>) exampleClient
             ''events/p1/trace/b1/'') = Fulfilled [''t1'', ''t2'', ''t3'']"
proof -
  have l: "listFiles exampleWorld exampleClient ''events/p1/trace/b1/'' = Fulfilled [''A'', ''B'']"
    by (simp add: exampleWorld_def)
  have a: "fragmentEvents exampleWorld exampleClient ''A'' = Fulfilled [''t1'']"
    and b: "fragmentEvents exampleWorld exampleClient ''B'' = Fulfilled [''t2'', ''t3'']"
    by code_simp+
  have f: "\<forall>key\<in>set [''A'', ''B'']. fragmentEvents exampleWorld exampleClient key
             = Fulfilled ((\<lambda>k. if k = ''A'' then [''t1''] else [''t2'', ''t3'']) key)"
    using a b by simp
  from C4_listing_order [OF l f, of "\<lambda>i. i"] C4_listing_order [OF l f, of "\<lambda>i. 10 - i"] l a b
  show ?thesis by simp
qed

section \<open>A fragment of neither shape\<close>

lemma fragment_neither_shape:
  assumes "download W c key = Fulfilled file"
    and "JSON_parse W file = Inr parsedFile"
    and "ingestionBatchEvent_safeParse W parsedFile = Failure m1"
    and "ingestionEvent_safeParse W parsedFile = Failure m2"
  shows "fragmentEvents W c key = Rejected (Error (''Failed to parse event from S3: '' @ m2))"
  using assms by (simp add: fragmentEvents_def validateFragment_def)

lemma assembleEvents_rejected_fragment:
  assumes "listFiles W c folder = Fulfilled keys"
    and "key \<in> set keys"
    and "fragmentEvents W c key = Rejected e"
  shows "\<exists>e'. snd (assembleEvents W c folder) = Rejected e'
             \<and> (\<exists>k\<in>set keys. fragmentEvents W c k = Rejected e')"
proof -
  from assms(2) obtain i where i: "i < length keys" "keys ! i = key"
    by (auto simp: in_set_conv_nth)
  with assms(3) have "map (fragmentEvents W c) keys ! i = Rejected e" by simp
  with i(1) obtain e' where
    e': "Promise_all (completionTime W) (map (fragmentEvents W c) keys) = Rejected e'"
    using Promise_all_rejects [of i "map (fragmentEvents W c) keys" e "completionTime W"] by auto
  then obtain i' where "i' < length keys" "fragmentEvents W c (keys ! i') = Rejected e'"
    by (auto dest: Promise_all_Rejected_D)
  then have "\<exists>k\<in>set keys. fragmentEvents W c k = Rejected e'"
    by (metis nth_mem)
  with e' show ?thesis by (simp add: assembleEvents_outcome assms(1))
qed

text \<open>
  C5, as the code has it. A fragment that downloads, parses as JSON and validates as
  neither shape is rejected with the message \<open>Failed to parse event from S3: \<close> followed
  by the message of the single-event schema's error. The attempt is then rejected with
  the error of a rejected fragment of the job, which is this error when no other fragment
  is rejected, and \<open>mergeAndWrite\<close> is not called.
\<close>

theorem C5_unparseable_fragment_fails_attempt:
  assumes "configuredBucket E = Some bucket"
    and "eventNameOf j = Some eventName"
    and "listFiles W (fst (getS3StorageServiceClient E bucket cache))
           (storagePrefix E j eventName) = Fulfilled keys"
    and "key \<in> set keys"
    and "download W (fst (getS3StorageServiceClient E bucket cache)) key = Fulfilled file"
    and "JSON_parse W file = Inr parsedFile"
    and "ingestionBatchEvent_safeParse W parsedFile = Failure m1"
    and "ingestionEvent_safeParse W parsedFile = Failure m2"
  shows "fragmentEvents W (fst (getS3StorageServiceClient E bucket cache)) key =
           Rejected (Error (''Failed to parse event from S3: '' @ m2))
       \<and> (\<exists>e. outcome (ingestionQueueProcessor E W j cache) = Rejected e
              \<and> (\<exists>k\<in>set keys.
                    fragmentEvents W (fst (getS3StorageServiceClient E bucket cache)) k = Rejected e))
       \<and> ((\<forall>k\<in>set keys. \<forall>e.
              fragmentEvents W (fst (getS3StorageServiceClient E bucket cache)) k = Rejected e
                \<longrightarrow> k = key) \<longrightarrow>
            outcome (ingestionQueueProcessor E W j cache) =
              Rejected (Error (''Failed to parse event from S3: '' @ m2)))
       \<and> filter isMerge (effects (ingestionQueueProcessor E W j cache)) = []"
proof -
  let ?c = "fst (getS3StorageServiceClient E bucket cache)"
  have f: "fragmentEvents W ?c key = Rejected (Error (''Failed to parse event from S3: '' @ m2))"
    using assms(5-8) by (rule fragment_neither_shape)
  from assembleEvents_rejected_fragment [OF assms(3,4) f] obtain e' where
    a: "snd (assembleEvents W ?c (storagePrefix E j eventName)) = Rejected e'"
    and k: "\<exists>k\<in>set keys. fragmentEvents W ?c k = Rejected e'"
    by blast
  have o: "outcome (ingestionQueueProcessor E W j cache) = Rejected e'"
    by (simp add: outcome_processor tryBlock_outcome assms(1,2) a)
  have m: "filter isMerge (effects (ingestionQueueProcessor E W j cache)) = []"
    by (simp add: processor_merges tryBlock_merges assms(1,2) a)
  have u: "(\<forall>k\<in>set keys. \<forall>e. fragmentEvents W ?c k = Rejected e \<longrightarrow> k = key) \<longrightarrow>
            e' = Error (''Failed to parse event from S3: '' @ m2)"
    using k f by auto
  from f o k m u show ?thesis by blast
qed

theorem C5_unparseable_fragment_fails_attempt_witness:
  "configuredBucket exampleEnv = Some ''events''
   \<and> eventNameOf exampleJob = Some ''trace''
   \<and> listFiles exampleWorld_badFragment (fst (getS3StorageServiceClient exampleEnv ''events'' None))
        (storagePrefix exampleEnv exampleJob ''trace'') = Fulfilled [''events/p1/trace/b1/f1.json'']
   \<and> download exampleWorld_badFragment (fst (getS3StorageServiceClient exampleEnv ''events'' None))
        ''events/p1/trace/b1/f1.json'' = Fulfilled ''{unexpected}''
   \<and> JSON_parse exampleWorld_badFragment ''{unexpected}'' = Inr ''{unexpected}''
   \<and> ingestionBatchEvent_safeParse exampleWorld_badFragment ''{unexpected}'' = Failure ''Expected array''
   \<and> ingestionEvent_safeParse exampleWorld_badFragment ''{unexpected}'' = Failure ''Required''
   \<and> outcome (ingestionQueueProcessor exampleEnv exampleWorld_badFragment exampleJob None) =
       Rejected (Error ''Failed to parse event from S3: Required'')
   \<and> filter isMerge (effects (ingestionQueueProcessor exampleEnv exampleWorld_badFragment
                                exampleJob None)) = []"
proof -
  have h1: "configuredBucket exampleEnv = Some ''events''" by code_simp
  have h2: "eventNameOf exampleJob = Some ''trace''" by code_simp
  have h3: "listFiles exampleWorld_badFragment (fst (getS3StorageServiceClient exampleEnv ''events'' None))
        (storagePrefix exampleEnv exampleJob ''trace'') = Fulfilled [''events/p1/trace/b1/f1.json'']"
    by (simp add: exampleWorld_badFragment_def)
  have h4: "''events/p1/trace/b1/f1.json'' \<in> set [''events/p1/trace/b1/f1.json'']" by simp
  have h5: "download exampleWorld_badFragment (fst (getS3StorageServiceClient exampleEnv ''events'' None))
        ''events/p1/trace/b1/f1.json'' = Fulfilled ''{unexpected}''"
    by (simp add: exampleWorld_badFragment_def exampleWorld_def)
  have h6: "JSON_parse exampleWorld_badFragment ''{unexpected}'' = Inr ''{unexpected}''"
    by (simp add: exampleWorld_badFragment_def exampleWorld_def)
  have h7: "ingestionBatchEvent_safeParse exampleWorld_badFragment ''{unexpected}'' = Failure ''Expected array''"
    by (simp add: exampleWorld_badFragment_def exampleWorld_def)
  have h8: "ingestionEvent_safeParse exampleWorld_badFragment ''{unexpected}'' = Failure ''Required''"
    by (simp add: exampleWorld_badFragment_def exampleWorld_def)
  from C5_unparseable_fragment_fails_attempt [OF h1 h2 h3 h4 h5 h6 h7 h8] h1 h2 h3 h5 h6 h7 h8
  show ?thesis by simp
qed

text \<open>
  C5 as the specification states it fails on the scenario with one fragment of neither
  shape: the error the attempt raises does not carry the key of the fragment.
\<close>

theorem C5_counterexample:
  "outcome (ingestionQueueProcessor exampleEnv exampleWorld_badFragment exampleJob None) =
     Rejected (Error ''Failed to parse event from S3: Required'')
   \<and> \<not> sublist ''events/p1/trace/b1/f1.json''
         (message (Error ''Failed to parse event from S3: Required''))"
  by code_simp

end
